theory Spec2Isabelle
  imports Complex_Main "HOL-Library.Word"
begin

section \<open>The waveform renderer of \<open>AudioRecorder.tsx\<close>\<close>

text \<open>
  \<open>visualizeAudio\<close> decodes the capture, takes the samples of channel 0 and draws one
  vertical line per pixel column of the canvas. Amplitudes are modelled as real numbers
  (the Float32 samples without rounding and without NaN); the canvas is the list of the
  drawing commands it received, in order. Colours and line width are not geometry and are
  left out of the commands.
\<close>

datatype draw_cmd =
    FillRect real real real real
  | ClearRect real real real real
  | BeginPath
  | MoveTo real real
  | LineTo real real
  | Stroke

text \<open>
  \<open>channelData[k]\<close> on a Float32Array: an index outside the array yields
  \<open>undefined\<close> (here \<open>None\<close>), it does not raise.
\<close>

definition js_index :: "real list \<Rightarrow> nat \<Rightarrow> real option" where
  "js_index channelData k = (if k < length channelData then Some (channelData ! k) else None)"

text \<open>
  The body of the inner loop: \<open>if (datum < min) min = datum; if (datum > max) max = datum;\<close>.
  Both comparisons are false when \<open>datum\<close> is \<open>undefined\<close>.
\<close>

fun scan_datum :: "real \<times> real \<Rightarrow> real option \<Rightarrow> real \<times> real" where
  "scan_datum (mn, mx) None = (mn, mx)"
| "scan_datum (mn, mx) (Some datum) =
     (let mn' = (if datum < mn then datum else mn);
          mx' = (if datum > mx then datum else mx)
      in (mn', mx'))"

text \<open>
  The inner loop of column \<open>i\<close>: \<open>min = 1.0\<close>, \<open>max = -1.0\<close>, then
  \<open>j = 0, ..., step - 1\<close> reading \<open>channelData[(i * step) + j]\<close>.
\<close>

definition column :: "real list \<Rightarrow> nat \<Rightarrow> nat \<Rightarrow> real \<times> real" where
  "column channelData step i =
     foldl (\<lambda>acc j. scan_datum acc (js_index channelData ((i * step) + j))) (1, - 1) [0..<step]"

text \<open>
  \<open>Math.ceil(channelData.length / WIDTH)\<close>. For \<open>WIDTH = 0\<close> JavaScript gives
  \<open>Infinity\<close> or \<open>NaN\<close>; the outer loop then has no iteration and the value is never
  used, so the model's value there (0) is immaterial.
\<close>

definition ceil_div :: "nat \<Rightarrow> nat \<Rightarrow> nat" where
  "ceil_div n w = (if w = 0 then 0 else (n + w - 1) div w)"

text \<open>The (min, max) pairs of the outer loop, one per \<open>i = 0, ..., WIDTH - 1\<close>.\<close>

definition envelope :: "nat \<Rightarrow> real list \<Rightarrow> (real \<times> real) list" where
  "envelope WIDTH channelData =
     map (column channelData (ceil_div (length channelData) WIDTH)) [0..<WIDTH]"

text \<open>
  \<open>canvasCtx.moveTo(i, (1 + min) * amp); canvasCtx.lineTo(i, (1 + max) * amp)\<close> with
  \<open>amp = HEIGHT / 2\<close>.
\<close>

definition segment :: "real \<Rightarrow> nat \<Rightarrow> real \<times> real \<Rightarrow> draw_cmd list" where
  "segment amp i mm = [MoveTo (real i) ((1 + fst mm) * amp), LineTo (real i) ((1 + snd mm) * amp)]"

definition draw_envelope :: "nat \<Rightarrow> nat \<Rightarrow> real list \<Rightarrow> draw_cmd list" where
  "draw_envelope WIDTH HEIGHT channelData =
     (let step = ceil_div (length channelData) WIDTH;
          amp = real HEIGHT / 2
      in concat (map (\<lambda>i. segment amp i (column channelData step i)) [0..<WIDTH]))"

text \<open>Everything \<open>visualizeAudio\<close> sends to the 2D context once decoding has succeeded.\<close>

definition render_waveform :: "nat \<Rightarrow> nat \<Rightarrow> real list \<Rightarrow> draw_cmd list" where
  "render_waveform WIDTH HEIGHT channelData =
     [FillRect 0 0 (real WIDTH) (real HEIGHT), BeginPath]
     @ draw_envelope WIDTH HEIGHT channelData @ [Stroke]"

text \<open>
  The span of column \<open>i\<close> as the specification words it: the samples with index in
  \<open>[i * step, i * step + step)\<close>, and their minimum and maximum.
\<close>

definition sample_span :: "real list \<Rightarrow> nat \<Rightarrow> nat \<Rightarrow> real list" where
  "sample_span channelData step i = take step (drop (i * step) channelData)"

definition span_indices :: "nat \<Rightarrow> nat \<Rightarrow> nat set" where
  "span_indices step i = {i * step ..< i * step + step}"

definition spec_min_max :: "real list \<Rightarrow> nat \<Rightarrow> nat \<Rightarrow> real \<times> real" where
  "spec_min_max channelData step i =
     (Min (set (sample_span channelData step i)), Max (set (sample_span channelData step i)))"

section \<open>The state of the \<open>AudioRecorder\<close> component\<close>

text \<open>
  A \<open>Blob\<close> or \<open>File\<close> object: its identity (\<open>Object.is\<close> compares objects by
  identity, which is how React compares effect dependencies), its bytes, its MIME type
  and, for a \<open>File\<close>, its name.
\<close>

type_synonym byte = "8 word"

record blob =
  ident :: nat
  content :: "byte list"
  mimeType :: string
  fileName :: "string option"

datatype source = recorded | uploaded

text \<open>
  The \<open>MediaRecorder\<close> held in \<open>mediaRecorderRef\<close>, with the stream it records and the
  \<open>audioChunks\<close> array its handlers close over.
\<close>

record recorder =
  stream :: nat
  audioChunks :: "byte list list"
  recording :: bool

text \<open>The \<open>audio\<close> element behind \<open>audioRef\<close> and the canvas behind \<open>canvasRef\<close>.\<close>

record audio_el =
  paused :: bool
  currentTime :: real
  duration :: real

record canvas =
  width :: nat
  height :: nat
  context2d :: "draw_cmd list option"

datatype url_event = Created nat | Revoked nat

text \<open>
  The eight \<open>useState\<close> cells and the three refs of the component, followed by the
  browser resources the component acquires: the microphone streams whose tracks are
  live, the object URLs created and not yet revoked (with the log of
  \<open>createObjectURL\<close>/\<open>revokeObjectURL\<close> calls), and what React keeps for the
  \<open>[audioBlob]\<close> effect (the dependency of its last run and the URL its cleanup will
  revoke).
\<close>

record widget =
  isRecording :: bool
  audioBlob :: "blob option"
  audioUrl :: "nat option"
  isPlaying :: bool
  isLoading :: bool
  errorMessage :: "string option"
  audioSource :: "source option"
  playbackPosition :: real
  mediaRecorderRef :: "recorder option"
  audioRef :: "audio_el option"
  canvasRef :: "canvas option"
  liveStreams :: "nat list"
  nextStream :: nat
  objectUrls :: "nat list"
  nextUrl :: nat
  urlLog :: "url_event list"
  effectDep :: "blob option"
  effectCleanup :: "nat option"

text \<open>
  The mounted component before any interaction: \<open>Waveform\<close> is rendered with
  \<open>width={800} height={100}\<close>, the audio element is paused at 0 (its duration is read
  only after a time update has set it).
\<close>

definition init :: widget where
  "init = \<lparr> isRecording = False, audioBlob = None, audioUrl = None, isPlaying = False,
            isLoading = False, errorMessage = None, audioSource = None, playbackPosition = 0,
            mediaRecorderRef = None,
            audioRef = Some \<lparr> paused = True, currentTime = 0, duration = 0 \<rparr>,
            canvasRef = Some \<lparr> width = 800, height = 100, context2d = Some [] \<rparr>,
            liveStreams = [], nextStream = 0, objectUrls = [], nextUrl = 0, urlLog = [],
            effectDep = None, effectCleanup = None \<rparr>"

subsection \<open>User-facing messages\<close>

text \<open>One character per UTF-16 code unit; the accented letters are given by code.\<close>

definition msg_microphone :: string where
  "msg_microphone = ''No se pudo acceder al micr'' @ [CHR 0xF3]
     @ ''fono. Por favor, verifica los permisos e intenta de nuevo.''"

definition msg_playback :: string where
  "msg_playback = ''Error al reproducir el audio. Por favor, intenta de nuevo.''"

definition msg_no_valid_expense :: string where
  "msg_no_valid_expense = ''No se registr'' @ [CHR 0xF3] @ '' ning'' @ [CHR 0xFA]
     @ ''n gasto. El archivo se proces'' @ [CHR 0xF3]
     @ '' correctamente, pero no se pudo identificar ning'' @ [CHR 0xFA]
     @ ''n gasto v'' @ [CHR 0xE1] @ ''lido.''"

definition msg_server_prefix :: string where
  "msg_server_prefix = ''Error en la respuesta del servidor: ''"

definition msg_no_response :: string where
  "msg_no_response = ''No se recibi'' @ [CHR 0xF3]
     @ '' respuesta del servidor. Por favor, intenta de nuevo.''"

definition msg_request_setup :: string where
  "msg_request_setup = ''Error al preparar la solicitud. Por favor, intenta de nuevo.''"

definition msg_unexpected :: string where
  "msg_unexpected = ''Ocurri'' @ [CHR 0xF3]
     @ '' un error inesperado. Por favor, intenta de nuevo.''"

subsection \<open>Capture controller\<close>

text \<open>
  \<open>startRecording\<close>. The outcome of the \<open>try\<close> block is an input: microphone granted
  and recorder started, \<open>getUserMedia\<close> rejected, or the stream granted but
  \<open>new MediaRecorder(stream)\<close> throwing. A granted stream is live from then on.
\<close>

datatype mic_outcome = MicGranted | MicDenied | RecorderThrows

definition startRecording :: "mic_outcome \<Rightarrow> widget \<Rightarrow> widget" where
  "startRecording outcome s =
     (case outcome of
        MicDenied \<Rightarrow> s\<lparr> errorMessage := Some msg_microphone \<rparr>
      | RecorderThrows \<Rightarrow>
          s\<lparr> liveStreams := liveStreams s @ [nextStream s], nextStream := Suc (nextStream s),
             errorMessage := Some msg_microphone \<rparr>
      | MicGranted \<Rightarrow>
          s\<lparr> liveStreams := liveStreams s @ [nextStream s], nextStream := Suc (nextStream s),
             mediaRecorderRef :=
               Some \<lparr> stream = nextStream s, audioChunks = [], recording = True \<rparr>,
             isRecording := True \<rparr>)"

text \<open>\<open>ondataavailable\<close>: \<open>audioChunks.push(event.data)\<close>.\<close>

definition ondataavailable :: "byte list \<Rightarrow> widget \<Rightarrow> widget" where
  "ondataavailable chunk s =
     (case mediaRecorderRef s of
        None \<Rightarrow> s
      | Some r \<Rightarrow> s\<lparr> mediaRecorderRef := Some (r\<lparr> audioChunks := audioChunks r @ [chunk] \<rparr>) \<rparr>)"

text \<open>
  \<open>stopRecording\<close>: \<open>MediaRecorder.stop()\<close> ends the recording; it does not stop the
  tracks of the stream, and nothing else in the component does.
\<close>

definition stopRecording :: "widget \<Rightarrow> widget" where
  "stopRecording s =
     (case mediaRecorderRef s of
        None \<Rightarrow> s
      | Some r \<Rightarrow>
          if isRecording s
          then s\<lparr> mediaRecorderRef := Some (r\<lparr> recording := False \<rparr>), isRecording := False \<rparr>
          else s)"

subsection \<open>Waveform renderer on the component state\<close>

text \<open>
  \<open>visualizeAudio\<close> is \<open>async\<close> and has no \<open>try\<close>: when \<open>arrayBuffer()\<close> or
  \<open>decodeAudioData\<close> rejects (\<open>decode\<close> returns \<open>None\<close>), the promise it returns is
  rejected and the state is as it was. \<open>decode\<close> gives the samples of channel 0.
\<close>

datatype promise = Fulfilled | Rejected

definition visualizeAudio :: "(blob \<Rightarrow> real list option) \<Rightarrow> blob \<Rightarrow> widget \<Rightarrow> widget \<times> promise" where
  "visualizeAudio decode audioData s =
     (case canvasRef s of
        None \<Rightarrow> (s, Fulfilled)
      | Some cv \<Rightarrow>
          (case decode audioData of
             None \<Rightarrow> (s, Rejected)
           | Some channelData \<Rightarrow>
               (case context2d cv of
                  None \<Rightarrow> (s, Fulfilled)
                | Some cmds \<Rightarrow>
                    (s\<lparr> canvasRef := Some (cv\<lparr> context2d :=
                          Some (cmds @ render_waveform (width cv) (height cv) channelData) \<rparr>) \<rparr>,
                     Fulfilled))))"

text \<open>
  The recorder's \<open>onstop\<close>: \<open>new Blob(audioChunks, { type: 'audio/wav' })\<close> (a new
  object, of identity \<open>oid\<close>), the three setters, and \<open>visualizeAudio(audioBlob)\<close>, whose
  promise is dropped.
\<close>

definition recorded_blob :: "nat \<Rightarrow> recorder \<Rightarrow> blob" where
  "recorded_blob oid r =
     \<lparr> ident = oid, content = concat (audioChunks r), mimeType = ''audio/wav'', fileName = None \<rparr>"

definition onstop :: "(blob \<Rightarrow> real list option) \<Rightarrow> nat \<Rightarrow> widget \<Rightarrow> widget" where
  "onstop decode oid s =
     (case mediaRecorderRef s of
        None \<Rightarrow> s
      | Some r \<Rightarrow>
          let b = recorded_blob oid r
          in fst (visualizeAudio decode b
                    (s\<lparr> audioBlob := Some b, audioSource := Some recorded, isRecording := False \<rparr>)))"

text \<open>\<open>handleFileSelect\<close>: \<open>event.target.files?.[0]\<close> is the argument \<open>file\<close>.\<close>

definition handleFileSelect :: "(blob \<Rightarrow> real list option) \<Rightarrow> blob option \<Rightarrow> widget \<Rightarrow> widget \<times> promise" where
  "handleFileSelect decode file s =
     (case file of
        None \<Rightarrow> (s, Fulfilled)
      | Some f \<Rightarrow> visualizeAudio decode f (s\<lparr> audioBlob := Some f, audioSource := Some uploaded \<rparr>))"

subsection \<open>Playback controller\<close>

text \<open>
  \<open>togglePlayback\<close>. \<open>playResolves\<close> tells whether the promise of \<open>play()\<close> is
  fulfilled; its \<open>catch\<close> handler only sets the error message. \<open>setIsPlaying(!isPlaying)\<close>
  is outside both branches.
\<close>

definition togglePlayback :: "bool \<Rightarrow> widget \<Rightarrow> widget" where
  "togglePlayback playResolves s =
     (case audioRef s of
        None \<Rightarrow> s
      | Some a \<Rightarrow>
          let s1 = (if isPlaying s then s\<lparr> audioRef := Some (a\<lparr> paused := True \<rparr>) \<rparr>
                    else if playResolves then s\<lparr> audioRef := Some (a\<lparr> paused := False \<rparr>) \<rparr>
                    else s\<lparr> errorMessage := Some msg_playback \<rparr>)
          in s1\<lparr> isPlaying := \<not> isPlaying s \<rparr>)"

text \<open>
  \<open>updatePlaybackPosition\<close>. The quotient is the real one; JavaScript's \<open>NaN\<close> and
  \<open>Infinity\<close> for a duration that is 0, unknown or unbounded are not modelled, and the
  properties below are about time updates with a positive finite duration.
\<close>

definition updatePlaybackPosition :: "widget \<Rightarrow> widget" where
  "updatePlaybackPosition s =
     (case audioRef s of
        None \<Rightarrow> s
      | Some a \<Rightarrow>
          (case canvasRef s of
             None \<Rightarrow> s
           | Some cv \<Rightarrow>
               s\<lparr> playbackPosition := (currentTime a / duration a) * real (width cv) \<rparr>))"

text \<open>
  The listeners of the audio element: \<open>timeupdate\<close> (the element has moved to
  \<open>currentTime = t\<close> of \<open>duration = d\<close>), \<open>ended\<close>, and the \<open>onPlay\<close>/\<open>onPause\<close> props.
\<close>

definition timeupdate_listener :: "real \<Rightarrow> real \<Rightarrow> widget \<Rightarrow> widget" where
  "timeupdate_listener t d s =
     (case audioRef s of
        None \<Rightarrow> s
      | Some a \<Rightarrow> updatePlaybackPosition (s\<lparr> audioRef := Some (a\<lparr> currentTime := t, duration := d \<rparr>) \<rparr>))"

definition ended_listener :: "widget \<Rightarrow> widget" where
  "ended_listener s = s\<lparr> isPlaying := False \<rparr>"

definition onPlay :: "widget \<Rightarrow> widget" where
  "onPlay s = s\<lparr> isPlaying := True \<rparr>"

definition onPause :: "widget \<Rightarrow> widget" where
  "onPause s = s\<lparr> isPlaying := False \<rparr>"

definition resetAudio :: "widget \<Rightarrow> widget" where
  "resetAudio s =
     (let s1 = (case audioRef s of
                  None \<Rightarrow> s
                | Some a \<Rightarrow> s\<lparr> audioRef := Some (a\<lparr> paused := True, currentTime := 0 \<rparr>) \<rparr>);
          s2 = s1\<lparr> audioBlob := None, audioUrl := None, audioSource := None,
                  isPlaying := False, playbackPosition := 0 \<rparr>
      in (case canvasRef s2 of
            None \<Rightarrow> s2
          | Some cv \<Rightarrow>
              (case context2d cv of
                 None \<Rightarrow> s2
               | Some cmds \<Rightarrow>
                   s2\<lparr> canvasRef := Some (cv\<lparr> context2d :=
                         Some (cmds @ [ClearRect 0 0 (real (width cv)) (real (height cv))]) \<rparr>) \<rparr>)))"

text \<open>The \<open>onClose\<close> of the error modal.\<close>

definition onClose :: "widget \<Rightarrow> widget" where
  "onClose s = s\<lparr> errorMessage := None \<rparr>"

subsection \<open>Upload coordinator\<close>

text \<open>
  The body of a 2xx response, typed \<open>{ message: string; expense: Expense }\<close> by
  \<open>uploadExpenseFile\<close>; \<open>Expense\<close> is the type parameter. Axios fulfils the promise
  exactly for the statuses 200 to 299.
\<close>

record 'e response =
  status :: nat
  message :: string
  expense :: 'e

text \<open>
  The body of an error response is untyped (\<open>error.response.data\<close> is \<open>any\<close>). It is
  \<open>null\<close> or \<open>undefined\<close> (\<open>NoData\<close>), on which reading \<open>.message\<close> throws a
  TypeError, or any other value, given by its \<open>message\<close> property: absent
  (\<open>Undefined\<close>), \<open>null\<close>, or a value taken by its conversion to a string.
\<close>

datatype js_value = Undefined | Null | Str string

datatype response_data = NoData | Data js_value

text \<open>
  What the promise of \<open>api.post\<close> can be rejected with, and what the host callback can
  throw, as the \<open>catch\<close> block of \<open>handleUpload\<close> tells the cases apart: an Axios error
  with a response (its status and its body), an Axios error with only a request, any
  other Axios error, and a value that is not an Axios error.
\<close>

datatype thrown =
    AxiosResponse nat response_data
  | AxiosRequest
  | AxiosSetup
  | NotAxios

type_synonym 'e api_post = "string \<Rightarrow> (string \<times> blob) list \<Rightarrow> thrown + 'e response"

definition uploadExpenseFile :: "'e api_post \<Rightarrow> blob \<Rightarrow> thrown + 'e response" where
  "uploadExpenseFile post file = post ''/expenses/upload'' [(''file'', file)]"

text \<open>String concatenation \<open>t + v\<close> with a value that need not be a string.\<close>

fun js_append :: "string \<Rightarrow> js_value \<Rightarrow> string" where
  "js_append t Undefined = t @ ''undefined''"
| "js_append t Null = t @ ''null''"
| "js_append t (Str u) = t @ u"

text \<open>
  The \<open>catch\<close> block of \<open>handleUpload\<close>: the message it sets, or \<open>None\<close> when it
  throws itself before setting one. The status is compared first, so a 422 never reads
  the body; for any other status \<open>error.response.data.message\<close> is read, which throws
  when the body is \<open>null\<close> or \<open>undefined\<close>.
\<close>

fun upload_error_message :: "thrown \<Rightarrow> string option" where
  "upload_error_message (AxiosResponse st body) =
     (if st = 422 then Some msg_no_valid_expense
      else (case body of
              NoData \<Rightarrow> None
            | Data m \<Rightarrow> Some (js_append msg_server_prefix m)))"
| "upload_error_message AxiosRequest = Some msg_no_response"
| "upload_error_message AxiosSetup = Some msg_request_setup"
| "upload_error_message NotAxios = Some msg_unexpected"

text \<open>
  \<open>handleUpload\<close> returns the new state with the outcome of its promise, and the calls
  of \<open>onUploadComplete\<close> it made, in order. The callback is inside the \<open>try\<close>:
  \<open>onUploadComplete e\<close> is \<open>None\<close> when it returns and \<open>Some t\<close> when it throws \<open>t\<close>,
  which the \<open>catch\<close> block then classifies. When the \<open>catch\<close> block throws, no message
  is set and the promise is rejected; \<open>finally\<close> runs in every case.
  \<open>upload_file\<close> is \<open>new File([audioBlob], 'audio_expense.wav', { type: 'audio/wav' })\<close>,
  a new object of identity \<open>oid\<close>.
\<close>

definition upload_file :: "nat \<Rightarrow> blob \<Rightarrow> blob" where
  "upload_file oid b =
     \<lparr> ident = oid, content = content b, mimeType = ''audio/wav'',
       fileName = Some ''audio_expense.wav'' \<rparr>"

definition handleUpload ::
  "nat \<Rightarrow> 'e api_post \<Rightarrow> ('e \<Rightarrow> thrown option) \<Rightarrow> widget \<Rightarrow> (widget \<times> promise) \<times> 'e list" where
  "handleUpload oid post onUploadComplete s =
     (case audioBlob s of
        None \<Rightarrow> ((s, Fulfilled), [])
      | Some b \<Rightarrow>
          let s1 = s\<lparr> isLoading := True \<rparr>;
              file = upload_file oid b;
              caught_calls =
                (case uploadExpenseFile post file of
                   Inl t \<Rightarrow> (Some t, [])
                 | Inr response \<Rightarrow> (onUploadComplete (expense response), [expense response]));
              s2_settled =
                (case fst caught_calls of
                   None \<Rightarrow> (s1, Fulfilled)
                 | Some t \<Rightarrow>
                     (case upload_error_message t of
                        None \<Rightarrow> (s1, Rejected)
                      | Some m \<Rightarrow> (s1\<lparr> errorMessage := Some m \<rparr>, Fulfilled)))
          in (((fst s2_settled)\<lparr> isLoading := False \<rparr>, snd s2_settled), snd caught_calls))"

subsection \<open>The effect on \<open>audioBlob\<close> and the transitions of the component\<close>

definition createObjectURL :: "widget \<Rightarrow> nat \<times> widget" where
  "createObjectURL s =
     (nextUrl s, s\<lparr> objectUrls := objectUrls s @ [nextUrl s], nextUrl := Suc (nextUrl s),
                    urlLog := urlLog s @ [Created (nextUrl s)] \<rparr>)"

definition revokeObjectURL :: "nat \<Rightarrow> widget \<Rightarrow> widget" where
  "revokeObjectURL u s =
     s\<lparr> objectUrls := removeAll u (objectUrls s), urlLog := urlLog s @ [Revoked u] \<rparr>"

text \<open>
  \<open>useEffect(..., [audioBlob])\<close> after a render: when \<open>audioBlob\<close> is the object of the
  last run, nothing happens; otherwise React first runs the cleanup the last run
  returned (\<open>URL.revokeObjectURL(url)\<close>), then the effect: for a blob,
  \<open>URL.createObjectURL\<close>, \<open>setAudioUrl(url)\<close> and a new cleanup; for \<open>null\<close>, nothing,
  and no cleanup is returned.
\<close>

definition useEffect_audioBlob :: "widget \<Rightarrow> widget" where
  "useEffect_audioBlob s =
     (if effectDep s = audioBlob s then s
      else
        let s1 = (case effectCleanup s of None \<Rightarrow> s | Some u \<Rightarrow> revokeObjectURL u s)
        in (case audioBlob s1 of
              None \<Rightarrow> s1\<lparr> effectDep := None, effectCleanup := None \<rparr>
            | Some b \<Rightarrow>
                let us = createObjectURL s1
                in (snd us)\<lparr> audioUrl := Some (fst us), effectDep := Some b,
                             effectCleanup := Some (fst us) \<rparr>))"

text \<open>
  What can happen to the mounted component: the clicks, the events of the recorder and
  of the audio element, a file selection, an upload with the outcome of its request and
  of the host callback. The handlers are not gated by which buttons are rendered, so the
  states reached here include all the states the rendered component reaches.
\<close>

datatype 'e event =
    StartClicked mic_outcome
  | DataAvailable "byte list"
  | StopClicked
  | RecorderStopped nat
  | ToggleClicked bool
  | TimeUpdate real real
  | Ended
  | Played
  | Paused
  | FileSelected "blob option"
  | ResetClicked
  | UploadClicked nat "thrown + 'e response" "thrown option"
  | ErrorClosed

fun handle :: "(blob \<Rightarrow> real list option) \<Rightarrow> 'e event \<Rightarrow> widget \<Rightarrow> widget" where
  "handle decode (StartClicked outcome) s = startRecording outcome s"
| "handle decode (DataAvailable chunk) s = ondataavailable chunk s"
| "handle decode StopClicked s = stopRecording s"
| "handle decode (RecorderStopped oid) s = onstop decode oid s"
| "handle decode (ToggleClicked playResolves) s = togglePlayback playResolves s"
| "handle decode (TimeUpdate t d) s = timeupdate_listener t d s"
| "handle decode Ended s = ended_listener s"
| "handle decode Played s = onPlay s"
| "handle decode Paused s = onPause s"
| "handle decode (FileSelected file) s = fst (handleFileSelect decode file s)"
| "handle decode ResetClicked s = resetAudio s"
| "handle decode (UploadClicked oid r c) s = fst (fst (handleUpload oid (\<lambda>_ _. r) (\<lambda>_. c) s))"
| "handle decode ErrorClosed s = onClose s"

text \<open>A transition: the handler, then the render with its effect.\<close>

definition transition :: "(blob \<Rightarrow> real list option) \<Rightarrow> 'e event \<Rightarrow> widget \<Rightarrow> widget" where
  "transition decode e s = useEffect_audioBlob (handle decode e s)"

text \<open>
  The audio element reports a position between 0 and its duration, which is positive
  when it reports one.
\<close>

fun well_timed :: "'e event \<Rightarrow> bool" where
  "well_timed (TimeUpdate t d) = (0 \<le> t \<and> t \<le> d \<and> 0 < d)"
| "well_timed _ = True"

text \<open>The state after a sequence of transitions.\<close>

fun run :: "(blob \<Rightarrow> real list option) \<Rightarrow> 'e event list \<Rightarrow> widget \<Rightarrow> widget" where
  "run decode [] s = s"
| "run decode (e # es) s = run decode es (transition decode e s)"

text \<open>
  The capture an event installs: the selected file, or the blob the recorder's
  \<open>onstop\<close> builds.
\<close>

fun new_capture :: "'e event \<Rightarrow> widget \<Rightarrow> blob option" where
  "new_capture (FileSelected file) s = file"
| "new_capture (RecorderStopped oid) s = map_option (recorded_blob oid) (mediaRecorderRef s)"
| "new_capture _ s = None"

text \<open>
  What holds of the object URLs after every transition: the only live URL is the one the
  pending cleanup will revoke, there is one exactly when a capture is held, and it is
  the \<open>src\<close> of the audio element.
\<close>

definition url_inv :: "widget \<Rightarrow> bool" where
  "url_inv s =
     (objectUrls s = (case effectCleanup s of None \<Rightarrow> [] | Some u \<Rightarrow> [u])
      \<and> (audioBlob s = None) = (effectCleanup s = None)
      \<and> effectDep s = audioBlob s
      \<and> audioUrl s = effectCleanup s)"

text \<open>
  The position stays on the canvas, whose width stays 800; both refs stay attached.
\<close>

definition position_inv :: "widget \<Rightarrow> bool" where
  "position_inv s =
     (0 \<le> playbackPosition s \<and> playbackPosition s \<le> 800
      \<and> map_option width (canvasRef s) = Some 800
      \<and> audioRef s \<noteq> None)"

section \<open>The envelope\<close>

lemma scan_datum_None [simp]: "scan_datum acc None = acc"
  by (cases acc) simp

lemma scan_fold_list:
  "foldl (\<lambda>acc j. scan_datum acc (js_index d (k + j))) acc [0..<n]
   = foldl (\<lambda>acc x. scan_datum acc (Some x)) acc (take n (drop k d))"
proof (induction n)
  case 0
  show ?case by simp
next
  case (Suc n)
  show ?case
  proof (cases "k + n < length d")
    case True
    then have "take (Suc n) (drop k d) = take n (drop k d) @ [d ! (k + n)]"
      by (simp add: take_Suc_conv_app_nth)
    with Suc True show ?thesis by (simp add: js_index_def)
  next
    case False
    then have "take (Suc n) (drop k d) = take n (drop k d)"
      by simp
    with Suc False show ?thesis by (simp add: js_index_def)
  qed
qed

lemma scan_list_fold:
  "foldl (\<lambda>acc x. scan_datum acc (Some x)) (mn, mx) xs = (fold min xs mn, fold max xs mx)"
proof (induction xs arbitrary: mn mx)
  case Nil
  show ?case by simp
next
  case (Cons x xs)
  have a: "(if x < mn then x else mn) = min x mn" by (simp add: min_def)
  have b: "(if x > mx then x else mx) = max x mx" by (simp add: max_def)
  show ?case using Cons[of "min x mn" "max x mx"] by (simp add: Let_def a b)
qed

lemma column_min_max:
  "column d step i = (Min (insert 1 (set (sample_span d step i))), Max (insert (- 1) (set (sample_span d step i))))"
  unfolding column_def sample_span_def
  by (simp add: scan_fold_list scan_list_fold Min.set_eq_fold [symmetric] Max.set_eq_fold [symmetric])

lemma column_in_range:
  assumes "sample_span d step i \<noteq> []" and "\<forall>x \<in> set (sample_span d step i). - 1 \<le> x \<and> x \<le> 1"
  shows "column d step i = spec_min_max d step i"
proof -
  let ?S = "set (sample_span d step i)"
  have fin: "finite ?S" and ne: "?S \<noteq> {}" using assms(1) by simp_all
  have "Min (insert 1 ?S) = min 1 (Min ?S)" using fin ne by simp
  moreover have "Min ?S \<le> 1" using assms(2) fin ne by (simp add: Min_le_iff)
  moreover have "Max (insert (- 1) ?S) = max (- 1) (Max ?S)" using fin ne by simp
  moreover have "- 1 \<le> Max ?S"
  proof -
    from assms(1) obtain a where a: "a \<in> ?S" by (cases "sample_span d step i") auto
    with assms(2) have "- 1 \<le> a" by simp
    also have "a \<le> Max ?S" using fin a by simp
    finally show ?thesis .
  qed
  ultimately show ?thesis by (simp add: column_min_max spec_min_max_def)
qed

lemma column_sentinel: "length d \<le> i * step \<Longrightarrow> column d step i = (1, - 1)"
  by (simp add: column_min_max sample_span_def)

lemma concat_pairs_length:
  "(\<And>k. length (f k) = 2) \<Longrightarrow> length (concat (map f [0..<n])) = 2 * n"
  by (induction n) simp_all

lemma concat_pairs_nth:
  assumes "\<And>k. length (f k) = 2" and "i < n"
  shows "take 2 (drop (2 * i) (concat (map f [0..<n]))) = f i"
  using assms(2)
proof (induction n)
  case 0
  then show ?case by simp
next
  case (Suc n)
  have len: "length (concat (map f [0..<n])) = 2 * n"
    using assms(1) by (rule concat_pairs_length)
  show ?case
  proof (cases "i < n")
    case True
    then have "2 * i + 2 \<le> 2 * n" by simp
    with Suc.IH [OF True] len show ?thesis by (simp add: take_drop)
  next
    case False
    with Suc.prems have "i = n" by simp
    with len assms(1) [of n] show ?thesis by simp
  qed
qed

lemma envelope_length: "length (envelope W d) = W"
  by (simp add: envelope_def)

lemma envelope_nth: "i < W \<Longrightarrow> envelope W d ! i = column d (ceil_div (length d) W) i"
  by (simp add: envelope_def)

lemma draw_envelope_length: "length (draw_envelope W H d) = 2 * W"
  by (simp add: draw_envelope_def Let_def concat_pairs_length segment_def)

lemma draw_envelope_nth:
  "i < W \<Longrightarrow> take 2 (drop (2 * i) (draw_envelope W H d))
     = segment (real H / 2) i (column d (ceil_div (length d) W) i)"
  by (simp add: draw_envelope_def Let_def concat_pairs_nth segment_def)

lemma span_indices_disjoint:
  assumes "i' \<noteq> i"
  shows "span_indices step i \<inter> span_indices step i' = {}"
proof -
  have lt: "a * step + step \<le> b * step" if "a < b" for a b :: nat
  proof -
    from that have "Suc a \<le> b" by simp
    then have "Suc a * step \<le> b * step" by (rule mult_le_mono1)
    then show ?thesis by simp
  qed
  from assms consider "i < i'" | "i' < i" by linarith
  then show ?thesis
  proof cases
    case 1
    from lt [OF 1] show ?thesis by (auto simp add: span_indices_def)
  next
    case 2
    from lt [OF 2] show ?thesis by (auto simp add: span_indices_def)
  qed
qed

lemma ceil_div_pos: "0 < n \<Longrightarrow> 0 < w \<Longrightarrow> 0 < ceil_div n w"
  by (simp add: ceil_div_def div_greater_zero_iff)

text \<open>
  Claim C1, as the code has it. For a channel-0 buffer \<open>d\<close> of \<open>N\<close> samples, a canvas
  of width \<open>W\<close> and height \<open>H\<close>, and \<open>step = ceil(N / W)\<close>: the renderer computes
  exactly \<open>W\<close> (min, max) pairs and draws exactly \<open>W\<close> segments, the one of column
  \<open>i\<close> being the vertical line from \<open>(i, (1 + min) * H / 2)\<close> to
  \<open>(i, (1 + max) * H / 2)\<close>; the index spans \<open>[i * step, i * step + step)\<close> of two
  different columns do not overlap; and for every column \<open>i\<close> that has at least one
  sample (\<open>i * step < N\<close>) and whose samples lie in \<open>[-1, 1]\<close>, the pair is the
  minimum and maximum of the samples of its span.
\<close>

theorem C1_envelope_segments:
  fixes d :: "real list"
  assumes "step = ceil_div (length d) W"
  shows "length (envelope W d) = W
     \<and> length (draw_envelope W H d) = 2 * W
     \<and> (i < W \<longrightarrow>
          take 2 (drop (2 * i) (draw_envelope W H d))
            = [MoveTo (real i) ((1 + fst (envelope W d ! i)) * (real H / 2)),
               LineTo (real i) ((1 + snd (envelope W d ! i)) * (real H / 2))])
     \<and> (i' \<noteq> i \<longrightarrow> span_indices step i \<inter> span_indices step i' = {})
     \<and> (i < W \<and> i * step < length d
          \<and> (\<forall>x \<in> set (sample_span d step i). - 1 \<le> x \<and> x \<le> 1) \<longrightarrow>
          envelope W d ! i = spec_min_max d step i)"
proof -
  have drw: "take 2 (drop (2 * i) (draw_envelope W H d))
      = [MoveTo (real i) ((1 + fst (envelope W d ! i)) * (real H / 2)),
         LineTo (real i) ((1 + snd (envelope W d ! i)) * (real H / 2))]" if "i < W"
    using that by (simp add: draw_envelope_nth envelope_nth segment_def)
  have env: "envelope W d ! i = spec_min_max d step i"
    if lt: "i < W" and some: "i * step < length d"
      and rng: "\<forall>x \<in> set (sample_span d step i). - 1 \<le> x \<and> x \<le> 1"
  proof -
    have "0 < length d" using some by (cases d) simp_all
    moreover have "0 < W" using lt by simp
    ultimately have "0 < step" unfolding assms by (rule ceil_div_pos)
    with some have ne: "sample_span d step i \<noteq> []"
      by (simp add: sample_span_def)
    have "column d step i = spec_min_max d step i"
      using ne rng by (rule column_in_range)
    with lt show ?thesis by (simp add: envelope_nth assms)
  qed
  show ?thesis
    using drw env by (simp add: envelope_length draw_envelope_length span_indices_disjoint)
qed

text \<open>
  Claim C1, witness: four samples on a canvas of width 2 and height 100, column 1.
\<close>

theorem C1_envelope_segments_witness:
  "length (envelope 2 [1/2, 1/5, 3/10, - 1/10]) = 2
   \<and> envelope 2 [1/2, 1/5, 3/10, - 1/10] ! 1 = (- 1/10, 3/10)
   \<and> take 2 (drop 2 (draw_envelope 2 100 [1/2, 1/5, 3/10, - 1/10])) = [MoveTo 1 45, LineTo 1 65]
   \<and> span_indices 2 1 \<inter> span_indices 2 0 = {}"
proof -
  let ?d = "[1/2, 1/5, 3/10, - 1/10 :: real]"
  have st: "(2::nat) = ceil_div (length ?d) 2" by (simp add: ceil_div_def)
  have h1: "(1::nat) < 2" and h2: "(0::nat) \<noteq> 1" by simp_all
  have h3: "1 * 2 < length ?d" by simp
  have h4: "\<forall>x \<in> set (sample_span ?d 2 1). - 1 \<le> x \<and> x \<le> 1"
    by (simp add: sample_span_def)
  have sp: "spec_min_max ?d 2 1 = (- 1/10, 3/10)"
    by (simp add: spec_min_max_def sample_span_def)
  from C1_envelope_segments [OF st, of 100 1 0] h1 h2 h3 h4 sp show ?thesis
    by simp
qed

text \<open>
  Claim C1 as stated fails: the accumulators start at \<open>min = 1.0\<close> and \<open>max = -1.0\<close>,
  so for the one-sample buffer \<open>[2]\<close> on a canvas of width 1 the renderer's pair is
  \<open>(1, 2)\<close>, not the minimum and maximum \<open>(2, 2)\<close> of the span.
\<close>

theorem C1_counterexample:
  "envelope 1 [2] ! 0 \<noteq> spec_min_max [2] (ceil_div (length [2::real]) 1) 0"
  by (simp add: envelope_def column_min_max ceil_div_def sample_span_def spec_min_max_def)

text \<open>
  Claim C10 on the code: one second of audio at 44100 Hz on the canvas of width 800 gives
  \<open>step = 56\<close>; column 788 reads index \<open>788 * 56 = 44128\<close>, which is outside the
  buffer, keeps \<open>min = 1.0\<close> and \<open>max = -1.0\<close>, and is drawn as the line from
  \<open>(788, 100)\<close> to \<open>(788, 0)\<close>.
\<close>

theorem C10_sentinel_column:
  "js_index (replicate 44100 0) (788 * ceil_div (length (replicate 44100 (0::real))) 800 + 0) = None
   \<and> envelope 800 (replicate 44100 0) ! 788 = (1, - 1)
   \<and> take 2 (drop (2 * 788) (draw_envelope 800 100 (replicate 44100 0)))
       = [MoveTo 788 100, LineTo 788 0]"
proof -
  have st: "ceil_div 44100 800 = 56"
    by (simp add: ceil_div_def)
  have col: "column (replicate 44100 0) 56 788 = (1, - 1)"
    by (rule column_sentinel) simp
  have drw: "take 2 (drop (2 * 788) (draw_envelope 800 100 (replicate 44100 0)))
      = segment (real 100 / 2) 788
          (column (replicate 44100 0) (ceil_div (length (replicate 44100 (0::real))) 800) 788)"
    by (rule draw_envelope_nth) simp
  show ?thesis
    using col drw by (simp add: st js_index_def envelope_nth segment_def)
qed

section \<open>The upload coordinator\<close>

lemmas handler_defs = startRecording_def ondataavailable_def stopRecording_def onstop_def
  togglePlayback_def timeupdate_listener_def updatePlaybackPosition_def ended_listener_def
  onPlay_def onPause_def handleFileSelect_def resetAudio_def handleUpload_def onClose_def
  visualizeAudio_def

text \<open>
  Claim C2. When a capture is held and the request of \<open>uploadExpenseFile\<close> is
  fulfilled (Axios fulfils it exactly for a 2xx status), \<open>handleUpload\<close> calls
  \<open>onUploadComplete\<close> exactly once, with the \<open>expense\<close> of the response body, whether
  the callback then returns or throws.
\<close>

theorem C2_callback_once:
  assumes "audioBlob s = Some b"
    and "uploadExpenseFile post (upload_file oid b) = Inr response"
  shows "snd (handleUpload oid post onUploadComplete s) = [expense response]"
  using assms by (simp add: handleUpload_def Let_def)

text \<open>
  Claim C2, witness: a held capture and a response of status 200 carrying expense 7.
\<close>

theorem C2_callback_once_witness:
  "audioBlob (init\<lparr> audioBlob := Some \<lparr> ident = 1, content = [1], mimeType = ''audio/wav'', fileName = None \<rparr> \<rparr>)
     = Some \<lparr> ident = 1, content = [1], mimeType = ''audio/wav'', fileName = None \<rparr>
   \<and> snd (handleUpload 2 (\<lambda>_ _. Inr \<lparr> status = 200, message = ''ok'', expense = (7::nat) \<rparr>)
          (\<lambda>_. None)
          (init\<lparr> audioBlob := Some \<lparr> ident = 1, content = [1], mimeType = ''audio/wav'', fileName = None \<rparr> \<rparr>))
     = [7]"
proof -
  let ?b = "\<lparr> ident = 1, content = [1], mimeType = ''audio/wav'', fileName = None \<rparr>"
  let ?r = "\<lparr> status = 200, message = ''ok'', expense = (7::nat) \<rparr>"
  have h1: "audioBlob (init\<lparr> audioBlob := Some ?b \<rparr>) = Some ?b" by simp
  have h2: "uploadExpenseFile (\<lambda>_ _. Inr ?r) (upload_file 2 ?b) = Inr ?r"
    by (simp add: uploadExpenseFile_def)
  from C2_callback_once [OF h1 h2, of "\<lambda>_. None"] h1 show ?thesis by simp
qed

text \<open>
  What \<open>handleUpload\<close> does with an error response, the texts written out as the source
  has them: a 422 sets the "no valid expense" message whatever the body; another status
  sets the server's message behind its prefix when the body can be read, and sets
  nothing, rejecting the promise, when the body is \<open>null\<close> or \<open>undefined\<close>. The capture,
  its URL and its source are as before and the host callback is not called.
\<close>

lemma handleUpload_error_response:
  assumes "audioBlob s = Some b"
    and "uploadExpenseFile post (upload_file oid b) = Inl (AxiosResponse st body)"
  shows "errorMessage (fst (fst (handleUpload oid post onUploadComplete s)))
       = (if st = 422
          then Some (''No se registr'' @ [CHR 0xF3] @ '' ning'' @ [CHR 0xFA]
                 @ ''n gasto. El archivo se proces'' @ [CHR 0xF3]
                 @ '' correctamente, pero no se pudo identificar ning'' @ [CHR 0xFA]
                 @ ''n gasto v'' @ [CHR 0xE1] @ ''lido.'')
          else (case body of
                  NoData \<Rightarrow> errorMessage s
                | Data m \<Rightarrow> Some (js_append ''Error en la respuesta del servidor: '' m)))
     \<and> snd (fst (handleUpload oid post onUploadComplete s))
       = (if st \<noteq> 422 \<and> body = NoData then Rejected else Fulfilled)
     \<and> audioBlob (fst (fst (handleUpload oid post onUploadComplete s))) = Some b
     \<and> audioUrl (fst (fst (handleUpload oid post onUploadComplete s))) = audioUrl s
     \<and> audioSource (fst (fst (handleUpload oid post onUploadComplete s))) = audioSource s
     \<and> snd (handleUpload oid post onUploadComplete s) = []"
  using assms
  by (simp add: handleUpload_def Let_def msg_no_valid_expense_def msg_server_prefix_def
      split: response_data.split)

text \<open>
  Claim C3 on the code: a capture is held and the upload is answered with status 500
  and the JSON body \<open>null\<close>. The \<open>catch\<close> block throws on \<open>error.response.data.message\<close>:
  the promise of \<open>handleUpload\<close> is rejected, no error message is set, and the state is
  as before the click. With a body that carries a message the same status sets the
  server's message behind its prefix, and a 422 sets the "no valid expense" message and
  keeps the capture.
\<close>

theorem C3_null_body_unreported:
  "fst (handleUpload 2 (\<lambda>_ _. Inl (AxiosResponse 500 NoData)) (\<lambda>e :: nat. None)
        (init\<lparr> audioBlob := Some \<lparr> ident = 1, content = [1], mimeType = ''audio/wav'', fileName = None \<rparr> \<rparr>))
     = (init\<lparr> audioBlob := Some \<lparr> ident = 1, content = [1], mimeType = ''audio/wav'', fileName = None \<rparr> \<rparr>,
        Rejected)
   \<and> errorMessage (run (\<lambda>_. Some [0, 1/2, - 1/2])
        [FileSelected (Some \<lparr> ident = 1, content = [1], mimeType = ''audio/wav'', fileName = Some ''a.wav'' \<rparr>),
         UploadClicked 2 (Inl (AxiosResponse 500 NoData)) None :: nat event] init)
     = None
   \<and> errorMessage (run (\<lambda>_. Some [0, 1/2, - 1/2])
        [FileSelected (Some \<lparr> ident = 1, content = [1], mimeType = ''audio/wav'', fileName = Some ''a.wav'' \<rparr>),
         UploadClicked 2 (Inl (AxiosResponse 500 (Data (Str ''Internal error'')))) None :: nat event] init)
     = Some ''Error en la respuesta del servidor: Internal error''
   \<and> errorMessage (run (\<lambda>_. Some [0, 1/2, - 1/2])
        [FileSelected (Some \<lparr> ident = 1, content = [1], mimeType = ''audio/wav'', fileName = Some ''a.wav'' \<rparr>),
         UploadClicked 2 (Inl (AxiosResponse 422 NoData)) None :: nat event] init)
     = Some (''No se registr'' @ [CHR 0xF3] @ '' ning'' @ [CHR 0xFA]
         @ ''n gasto. El archivo se proces'' @ [CHR 0xF3]
         @ '' correctamente, pero no se pudo identificar ning'' @ [CHR 0xFA]
         @ ''n gasto v'' @ [CHR 0xE1] @ ''lido.'')
   \<and> audioBlob (run (\<lambda>_. Some [0, 1/2, - 1/2])
        [FileSelected (Some \<lparr> ident = 1, content = [1], mimeType = ''audio/wav'', fileName = Some ''a.wav'' \<rparr>),
         UploadClicked 2 (Inl (AxiosResponse 422 NoData)) None :: nat event] init)
     = Some \<lparr> ident = 1, content = [1], mimeType = ''audio/wav'', fileName = Some ''a.wav'' \<rparr>"
  by (simp add: transition_def handler_defs init_def useEffect_audioBlob_def createObjectURL_def
      uploadExpenseFile_def msg_no_valid_expense_def msg_server_prefix_def)

section \<open>Decoding and playback failures\<close>

text \<open>
  Claim C4 on the code: selecting a file that \<open>decodeAudioData\<close> rejects leaves the
  promise of \<open>handleFileSelect\<close> rejected with nobody to catch it; the capture is
  stored, no error message is set and nothing is drawn on the canvas. The same holds
  when the blob of a finished recording cannot be decoded.
\<close>

theorem C4_decode_failure_unreported:
  "handleFileSelect (\<lambda>_. None)
       (Some \<lparr> ident = 1, content = [0], mimeType = ''audio/mpeg'', fileName = Some ''corrupt.mp3'' \<rparr>) init
     = (init\<lparr> audioBlob := Some \<lparr> ident = 1, content = [0], mimeType = ''audio/mpeg'', fileName = Some ''corrupt.mp3'' \<rparr>,
              audioSource := Some uploaded \<rparr>, Rejected)
   \<and> errorMessage (transition (\<lambda>_. None)
        (FileSelected (Some \<lparr> ident = 1, content = [0], mimeType = ''audio/mpeg'', fileName = Some ''corrupt.mp3'' \<rparr>) :: nat event)
        init) = None
   \<and> map_option context2d (canvasRef (transition (\<lambda>_. None)
        (FileSelected (Some \<lparr> ident = 1, content = [0], mimeType = ''audio/mpeg'', fileName = Some ''corrupt.mp3'' \<rparr>) :: nat event)
        init)) = Some (Some [])
   \<and> errorMessage (run (\<lambda>_. None)
        [StartClicked MicGranted, DataAvailable [0], StopClicked, RecorderStopped 1 :: nat event] init) = None"
  by (simp add: transition_def handler_defs init_def useEffect_audioBlob_def createObjectURL_def
      recorded_blob_def)

text \<open>
  Claim C5 on the code: with a capture held and playback stopped, a toggle whose
  \<open>play()\<close> is rejected sets the error message, leaves the element paused, and still
  sets \<open>isPlaying\<close> to \<open>true\<close>.
\<close>

theorem C5_failed_play_marks_playing:
  "isPlaying (run (\<lambda>_. Some [0, 1/2, - 1/2])
       [FileSelected (Some \<lparr> ident = 1, content = [0], mimeType = ''audio/wav'', fileName = Some ''a.wav'' \<rparr>) :: nat event] init)
     = False
   \<and> isPlaying (run (\<lambda>_. Some [0, 1/2, - 1/2])
       [FileSelected (Some \<lparr> ident = 1, content = [0], mimeType = ''audio/wav'', fileName = Some ''a.wav'' \<rparr>),
        ToggleClicked False :: nat event] init)
     = True
   \<and> errorMessage (run (\<lambda>_. Some [0, 1/2, - 1/2])
       [FileSelected (Some \<lparr> ident = 1, content = [0], mimeType = ''audio/wav'', fileName = Some ''a.wav'' \<rparr>),
        ToggleClicked False :: nat event] init)
     = Some msg_playback
   \<and> map_option paused (audioRef (run (\<lambda>_. Some [0, 1/2, - 1/2])
       [FileSelected (Some \<lparr> ident = 1, content = [0], mimeType = ''audio/wav'', fileName = Some ''a.wav'' \<rparr>),
        ToggleClicked False :: nat event] init))
     = Some True"
  by (simp add: transition_def handler_defs init_def useEffect_audioBlob_def createObjectURL_def)

section \<open>Captures and their object URLs\<close>

lemma url_inv_init: "url_inv init"
  by (simp add: url_inv_def init_def)

lemma handle_urls:
  "objectUrls (handle decode e s) = objectUrls s
   \<and> effectDep (handle decode e s) = effectDep s
   \<and> effectCleanup (handle decode e s) = effectCleanup s
   \<and> urlLog (handle decode e s) = urlLog s
   \<and> nextUrl (handle decode e s) = nextUrl s"
  by (cases e) (simp_all add: handler_defs Let_def split: option.split mic_outcome.split sum.split)

lemma handle_audioUrl:
  "audioUrl (handle decode e s) = (if e = ResetClicked then None else audioUrl s)"
  by (cases e) (simp_all add: handler_defs Let_def split: option.split mic_outcome.split sum.split)

lemma handle_audioBlob:
  "audioBlob (handle decode e s) =
     (if e = ResetClicked then None
      else case new_capture e s of None \<Rightarrow> audioBlob s | Some f \<Rightarrow> Some f)"
  by (cases e) (simp_all add: handler_defs Let_def split: option.split mic_outcome.split sum.split)

lemma effect_unchanged:
  "effectDep s = audioBlob s \<Longrightarrow> useEffect_audioBlob s = s"
  by (simp add: useEffect_audioBlob_def)

lemma effect_rerun:
  assumes "effectDep s \<noteq> audioBlob s"
    and "objectUrls s = (case effectCleanup s of None \<Rightarrow> [] | Some u \<Rightarrow> [u])"
    and "audioBlob s = None \<Longrightarrow> audioUrl s = None"
  shows "url_inv (useEffect_audioBlob s)"
  using assms
  by (simp add: useEffect_audioBlob_def url_inv_def createObjectURL_def revokeObjectURL_def
      Let_def split: option.split)

lemma url_inv_step:
  assumes "url_inv s"
  shows "url_inv (transition decode e s)"
proof (cases "effectDep (handle decode e s) = audioBlob (handle decode e s)")
  case True
  then have same: "audioBlob (handle decode e s) = audioBlob s"
    using assms by (simp add: handle_urls url_inv_def)
  have "url_inv (handle decode e s)"
    using assms same unfolding url_inv_def
    by (auto simp add: handle_urls handle_audioUrl handle_audioBlob)
  with True show ?thesis by (simp add: transition_def effect_unchanged)
next
  case False
  have a: "objectUrls (handle decode e s) =
      (case effectCleanup (handle decode e s) of None \<Rightarrow> [] | Some u \<Rightarrow> [u])"
    using assms by (simp add: handle_urls url_inv_def)
  have b: "audioBlob (handle decode e s) = None \<Longrightarrow> audioUrl (handle decode e s) = None"
    using assms
    by (auto simp add: handle_audioUrl handle_audioBlob url_inv_def split: if_splits option.splits)
  show ?thesis unfolding transition_def by (rule effect_rerun [OF False a b])
qed

lemma url_inv_run: "url_inv s \<Longrightarrow> url_inv (run decode es s)"
  by (induction es arbitrary: s) (simp_all add: url_inv_step)

lemma replace_capture:
  assumes "url_inv s" and "audioBlob s = Some b" and "new_capture e s = Some f" and "f \<noteq> b"
  shows "\<exists>u. objectUrls s = [u] \<and> audioUrl s = Some u
     \<and> urlLog (transition decode e s) = urlLog s @ [Revoked u, Created (nextUrl s)]
     \<and> objectUrls (transition decode e s) = [nextUrl s]
     \<and> audioUrl (transition decode e s) = Some (nextUrl s)
     \<and> audioBlob (transition decode e s) = Some f"
proof -
  from assms(1,2) obtain u where u: "effectCleanup s = Some u" "objectUrls s = [u]"
    "audioUrl s = Some u" "effectDep s = Some b"
    by (auto simp add: url_inv_def)
  have e: "e \<noteq> ResetClicked" using assms(3) by auto
  let ?h = "handle decode e s"
  have h: "audioBlob ?h = Some f" "effectDep ?h = Some b" "effectCleanup ?h = Some u"
    "objectUrls ?h = [u]" "urlLog ?h = urlLog s" "nextUrl ?h = nextUrl s"
    using assms(3) e u by (simp_all add: handle_urls handle_audioBlob)
  show ?thesis using h u assms(4)
    by (simp add: transition_def useEffect_audioBlob_def createObjectURL_def revokeObjectURL_def Let_def)
qed

text \<open>
  Claim C6. In every state the component reaches there is exactly one live object URL
  when a capture is held and none otherwise (and \<open>audioBlob\<close> holds at most one
  capture). When a capture \<open>b\<close> is held and an event installs another capture \<open>f\<close>
  (a file is selected or the recorder's \<open>onstop\<close> delivers a recording), \<open>f\<close> replaces
  \<open>b\<close>, the URL of \<open>b\<close> is revoked first and only then the URL of \<open>f\<close> is created,
  and it is the only live URL afterwards.
\<close>

theorem C6_single_capture:
  fixes es :: "'e event list" and e :: "'e event"
  assumes "s = run decode es init"
  shows "length (objectUrls s) = (if audioBlob s = None then 0 else 1)
     \<and> (audioBlob s = Some b \<and> new_capture e s = Some f \<and> f \<noteq> b \<longrightarrow>
          (\<exists>u. objectUrls s = [u] \<and> audioUrl s = Some u
             \<and> urlLog (transition decode e s) = urlLog s @ [Revoked u, Created (nextUrl s)]
             \<and> objectUrls (transition decode e s) = [nextUrl s]
             \<and> audioUrl (transition decode e s) = Some (nextUrl s)
             \<and> audioBlob (transition decode e s) = Some f))"
proof -
  have inv: "url_inv s"
    unfolding assms using url_inv_init by (rule url_inv_run)
  then have "length (objectUrls s) = (if audioBlob s = None then 0 else 1)"
    by (auto simp add: url_inv_def)
  with replace_capture [OF inv, of b e f decode] show ?thesis by blast
qed

text \<open>
  Claim C6, witness: a file is selected, then another one.
\<close>

theorem C6_single_capture_witness:
  "audioBlob (run (\<lambda>_. Some [0, 1/2, - 1/2]) [FileSelected (Some \<lparr> ident = 1, content = [1], mimeType = ''audio/wav'', fileName = Some ''a.wav'' \<rparr>) :: nat event] init)
     = Some \<lparr> ident = 1, content = [1], mimeType = ''audio/wav'', fileName = Some ''a.wav'' \<rparr>
   \<and> urlLog (run (\<lambda>_. Some [0, 1/2, - 1/2]) [FileSelected (Some \<lparr> ident = 1, content = [1], mimeType = ''audio/wav'', fileName = Some ''a.wav'' \<rparr>),
          FileSelected (Some \<lparr> ident = 2, content = [2], mimeType = ''audio/wav'', fileName = Some ''b.wav'' \<rparr>) :: nat event] init)
     = [Created 0, Revoked 0, Created 1]
   \<and> objectUrls (run (\<lambda>_. Some [0, 1/2, - 1/2]) [FileSelected (Some \<lparr> ident = 1, content = [1], mimeType = ''audio/wav'', fileName = Some ''a.wav'' \<rparr>),
          FileSelected (Some \<lparr> ident = 2, content = [2], mimeType = ''audio/wav'', fileName = Some ''b.wav'' \<rparr>) :: nat event] init)
     = [1]"
proof -
  let ?f1 = "\<lparr> ident = 1, content = [1], mimeType = ''audio/wav'', fileName = Some ''a.wav'' \<rparr>"
  let ?f2 = "\<lparr> ident = 2, content = [2], mimeType = ''audio/wav'', fileName = Some ''b.wav'' \<rparr>"
  let ?s = "run (\<lambda>_. Some [0, 1/2, - 1/2]) [FileSelected (Some ?f1) :: nat event] init"
  have b: "audioBlob ?s = Some ?f1"
    by (simp add: transition_def handler_defs init_def useEffect_audioBlob_def createObjectURL_def)
  have l: "urlLog ?s = [Created 0]" "nextUrl ?s = 1" "objectUrls ?s = [0]"
    by (simp_all add: transition_def handler_defs init_def useEffect_audioBlob_def
        createObjectURL_def)
  have n: "new_capture (FileSelected (Some ?f2) :: nat event) ?s = Some ?f2" by simp
  have d: "?f2 \<noteq> ?f1" by simp
  from C6_single_capture [OF refl, of "\<lambda>_. Some [0, 1/2, - 1/2]" "[FileSelected (Some ?f1)]" ?f1
      "FileSelected (Some ?f2)" ?f2] b n d l
  show ?thesis by auto
qed

section \<open>The microphone stream\<close>

lemma handle_liveStreams:
  "set (liveStreams s) \<subseteq> set (liveStreams (handle decode e s))"
  by (cases e) (auto simp add: handler_defs Let_def split: option.split mic_outcome.split sum.split)

lemma effect_liveStreams: "liveStreams (useEffect_audioBlob s) = liveStreams s"
  by (simp add: useEffect_audioBlob_def createObjectURL_def revokeObjectURL_def Let_def
      split: option.split)

lemma run_liveStreams: "set (liveStreams s) \<subseteq> set (liveStreams (run decode es s))"
proof (induction es arbitrary: s)
  case Nil
  show ?case by simp
next
  case (Cons e es)
  have "set (liveStreams s) \<subseteq> set (liveStreams (transition decode e s))"
    by (simp add: transition_def effect_liveStreams handle_liveStreams)
  also have "\<dots> \<subseteq> set (liveStreams (run decode es (transition decode e s)))"
    by (rule Cons.IH)
  finally show ?case by simp
qed

text \<open>
  Claim C7, as the code has it. \<open>stopRecording\<close>, the recorder's \<open>onstop\<close> and
  \<open>resetAudio\<close> leave the live microphone streams as they are, and no sequence of
  transitions releases a stream: the component never stops the tracks of a stream it
  acquired.
\<close>

theorem C7_streams_stay_live:
  "liveStreams (stopRecording s) = liveStreams s
   \<and> liveStreams (onstop decode oid s) = liveStreams s
   \<and> liveStreams (resetAudio s) = liveStreams s
   \<and> set (liveStreams s) \<subseteq> set (liveStreams (run decode es s))"
proof -
  have "liveStreams (stopRecording s) = liveStreams s"
    by (simp add: stopRecording_def split: option.split)
  moreover have "liveStreams (onstop decode oid s) = liveStreams s"
    by (simp add: onstop_def visualizeAudio_def Let_def split: option.split)
  moreover have "liveStreams (resetAudio s) = liveStreams s"
    by (simp add: resetAudio_def Let_def split: option.split)
  ultimately show ?thesis using run_liveStreams [of s decode es] by simp
qed

text \<open>
  Claim C7 as stated fails: after a recording is started, stopped and reset, the stream
  acquired for it is still live.
\<close>

theorem C7_counterexample:
  "map_option stream (mediaRecorderRef (startRecording MicGranted init)) = Some 0
   \<and> 0 \<in> set (liveStreams (stopRecording (startRecording MicGranted init)))
   \<and> 0 \<in> set (liveStreams (resetAudio (onstop (\<lambda>_. None) 1
           (stopRecording (startRecording MicGranted init)))))"
  by (simp add: handler_defs init_def recorded_blob_def)

section \<open>The playback position\<close>

lemma handle_position:
  "playbackPosition (handle decode e s) =
     (case e of
        TimeUpdate t d \<Rightarrow>
          (case audioRef s of None \<Rightarrow> playbackPosition s
           | Some a \<Rightarrow> (case canvasRef s of None \<Rightarrow> playbackPosition s
                        | Some cv \<Rightarrow> (t / d) * real (width cv)))
      | ResetClicked \<Rightarrow> 0
      | _ \<Rightarrow> playbackPosition s)"
  by (cases e) (simp_all add: handler_defs Let_def split: option.split mic_outcome.split sum.split)

lemma handle_refs:
  "map_option width (canvasRef (handle decode e s)) = map_option width (canvasRef s)
   \<and> (audioRef (handle decode e s) = None) = (audioRef s = None)"
  by (cases e) (simp_all add: handler_defs Let_def split: option.split mic_outcome.split sum.split)

lemma effect_position:
  "playbackPosition (useEffect_audioBlob s) = playbackPosition s
   \<and> canvasRef (useEffect_audioBlob s) = canvasRef s
   \<and> audioRef (useEffect_audioBlob s) = audioRef s"
  by (simp add: useEffect_audioBlob_def createObjectURL_def revokeObjectURL_def Let_def
      split: option.split)

lemma fraction_on_canvas:
  fixes t d :: real
  assumes "0 \<le> t" and "t \<le> d" and "0 < d"
  shows "0 \<le> (t / d) * 800 \<and> (t / d) * 800 \<le> 800"
  using assms by (simp add: divide_le_eq)

lemma transition_position:
  assumes "position_inv s"
  shows "playbackPosition (transition decode e s) =
     (case e of TimeUpdate t d \<Rightarrow> (t / d) * 800 | ResetClicked \<Rightarrow> 0 | _ \<Rightarrow> playbackPosition s)"
proof -
  have "playbackPosition (transition decode e s) = playbackPosition (handle decode e s)"
    by (simp add: transition_def effect_position)
  also have "\<dots> = (case e of TimeUpdate t d \<Rightarrow> (t / d) * 800 | ResetClicked \<Rightarrow> 0
      | _ \<Rightarrow> playbackPosition s)"
    unfolding handle_position using assms
    by (auto simp add: position_inv_def split: event.split)
  finally show ?thesis .
qed

lemma position_inv_step:
  assumes "position_inv s" and "well_timed e"
  shows "position_inv (transition decode e s)"
proof -
  have refs: "map_option width (canvasRef (transition decode e s)) = Some 800"
    "audioRef (transition decode e s) \<noteq> None"
    using assms(1) handle_refs [of decode e s]
    by (simp_all add: transition_def effect_position position_inv_def)
  have pos: "0 \<le> playbackPosition (transition decode e s)
      \<and> playbackPosition (transition decode e s) \<le> 800"
  proof (cases e)
    case (TimeUpdate t d)
    with assms(2) have "0 \<le> t" "t \<le> d" "0 < d" by simp_all
    then show ?thesis
      using fraction_on_canvas [of t d] TimeUpdate transition_position [OF assms(1), of decode e]
      by simp
  qed (use assms(1) transition_position [OF assms(1), of decode e] in \<open>simp_all add: position_inv_def\<close>)
  from refs pos show ?thesis by (simp add: position_inv_def)
qed

lemma position_inv_run:
  "position_inv s \<Longrightarrow> list_all well_timed es \<Longrightarrow> position_inv (run decode es s)"
  by (induction es arbitrary: s) (simp_all add: position_inv_step)

lemma position_inv_init: "position_inv init"
  by (simp add: position_inv_def init_def)

text \<open>
  Claim C8, as the code has it. In every state reached by time updates that report
  \<open>0 \<le> currentTime \<le> duration\<close> and \<open>0 < duration\<close>, the playback position is an
  offset in canvas pixels between 0 and the canvas width 800; a time update sets it to
  \<open>(currentTime / duration) * 800\<close>, a reset sets it to 0, and no other event
  changes it.
\<close>

theorem C8_position_on_canvas:
  assumes "list_all well_timed es" and "s = run decode es init" and "well_timed e"
  shows "0 \<le> playbackPosition s \<and> playbackPosition s \<le> 800
     \<and> playbackPosition (transition decode e s) =
         (case e of TimeUpdate t d \<Rightarrow> (t / d) * 800 | ResetClicked \<Rightarrow> 0
          | _ \<Rightarrow> playbackPosition s)"
proof -
  have inv: "position_inv s"
    unfolding assms(2) using position_inv_init assms(1) by (rule position_inv_run)
  then show ?thesis
    using transition_position [OF inv, of decode e] by (simp add: position_inv_def)
qed

text \<open>
  Claim C8, witness: playback starts, a time update comes at a quarter of the clip,
  then one at three quarters.
\<close>

theorem C8_position_on_canvas_witness:
  "list_all well_timed [ToggleClicked True, TimeUpdate 1 4 :: nat event]
   \<and> well_timed (TimeUpdate 3 4 :: nat event)
   \<and> playbackPosition (run (\<lambda>_. Some [0, 1/2, - 1/2])
        [ToggleClicked True, TimeUpdate 1 4 :: nat event] init) = 200
   \<and> playbackPosition (transition (\<lambda>_. Some [0, 1/2, - 1/2]) (TimeUpdate 3 4 :: nat event)
        (run (\<lambda>_. Some [0, 1/2, - 1/2]) [ToggleClicked True, TimeUpdate 1 4 :: nat event] init))
       = 600"
proof -
  let ?es = "[ToggleClicked True, TimeUpdate 1 4 :: nat event]"
  have h1: "list_all well_timed ?es" by simp
  have h3: "well_timed (TimeUpdate 3 4 :: nat event)" by simp
  have v: "playbackPosition (run (\<lambda>_. Some [0, 1/2, - 1/2]) ?es init) = 200"
    by (simp add: transition_def handler_defs init_def useEffect_audioBlob_def)
  from C8_position_on_canvas [OF h1 refl h3, of "\<lambda>_. Some [0, 1/2, - 1/2]"] h1 h3 v
  show ?thesis by simp
qed

text \<open>
  Claim C8 as stated fails: at half of the clip the position is 400, not a fraction
  in \<open>[0, 1]\<close>.
\<close>

theorem C8_counterexample:
  "well_timed (TimeUpdate 1 2 :: nat event)
   \<and> \<not> playbackPosition (run (\<lambda>_. None) [TimeUpdate 1 2 :: nat event] init) \<le> 1"
  by (simp add: transition_def handler_defs init_def useEffect_audioBlob_def)


end
